theory Spec2Isabelle
  imports Main "HOL-Library.Word"
begin

section \<open>BurpUtils: a wrapper class around the Burp extension helpers\<close>

text \<open>
  The development embeds \<^verbatim>\<open>src/burputils.py\<close>. The class \<^verbatim>\<open>BurpUtils\<close> keeps one
  attribute, the helper object of the host, and every method either forwards to a method
  of that helper, reads or writes an \<^verbatim>\<open>IHttpRequestResponse\<close> object of the host, or
  spawns an operating system process.

  The host helper, the process layer and the \<^verbatim>\<open>headers\<close> module are not part of the
  file: they are parameters of the model. Everything the methods themselves do (the
  choice of the host method, the index and slice expressions, the call of
  \<^verbatim>\<open>list.insert\<close>, the order of the effects) is written out.
\<close>

subsection \<open>Values and exceptions\<close>

type_synonym byte = "8 word"
type_synonym bytes = "byte list"

text \<open>The Python values that reach the methods as dynamically typed arguments or results.\<close>

datatype pyval =
    PyNone
  | PyInt int
  | PyStr string
  | PyBytes bytes

text \<open>
  Exceptions are values. \<open>TypeError\<close>, \<open>IndexError\<close> and \<open>AttributeError\<close> are raised by
  the Python runtime inside the methods; \<open>HostException\<close> stands for whatever a host
  method throws and \<open>OSError\<close> for whatever the process layer raises, each with a
  payload so that two of them can be told apart.
\<close>

datatype error =
    TypeError
  | IndexError
  | AttributeError
  | HostException string
  | OSError int

subsection \<open>Objects of the host\<close>

text \<open>
  An \<^verbatim>\<open>IHttpRequestResponse\<close> object: the five properties its interface exposes. The
  getters read a property, \<^verbatim>\<open>setRequest\<close> and \<^verbatim>\<open>setResponse\<close> assign one; both
  messages are byte arrays, as documented.
\<close>

record http_rr =
  rr_request :: bytes
  rr_response :: bytes
  rr_comment :: string
  rr_highlight :: string
  rr_httpService :: string

text \<open>
  An \<^verbatim>\<open>IRequestInfo\<close> or \<^verbatim>\<open>IResponseInfo\<close> object, as far as the methods look at it:
  \<^verbatim>\<open>getBodyOffset()\<close> (a Java \<^verbatim>\<open>int\<close>) and \<^verbatim>\<open>getHeaders()\<close>.
\<close>

record info =
  info_bodyOffset :: int
  info_headers :: "string list"

text \<open>
  What a method hands to \<^verbatim>\<open>analyzeRequest\<close> or \<^verbatim>\<open>analyzeResponse\<close>: the host
  overloads the former on a byte array and on an \<^verbatim>\<open>IHttpRequestResponse\<close>.
\<close>

datatype harg =
    HBytes bytes
  | HReqResp http_rr

text \<open>
  The helper object (\<^verbatim>\<open>IExtensionHelpers\<close>): one function per method the class calls.
  A host method returns or throws.
\<close>

record helpers =
  analyzeRequest :: "harg \<Rightarrow> error + info"
  analyzeResponse :: "harg \<Rightarrow> error + info"
  buildHttpMessage :: "string list \<Rightarrow> bytes \<Rightarrow> error + bytes"
  base64Decode :: "pyval \<Rightarrow> error + pyval"
  base64Encode :: "pyval \<Rightarrow> error + pyval"

text \<open>The calls made on the helper, recorded in the order they happen.\<close>

datatype host_call =
    CallAnalyzeRequest harg
  | CallAnalyzeResponse harg
  | CallBuildHttpMessage "string list" bytes
  | CallBase64Decode pyval
  | CallBase64Encode pyval

text \<open>
  The \<^verbatim>\<open>Headers\<close> class of the module \<^verbatim>\<open>headers\<close>, which the file imports and which is
  not part of it: a headers object of type \<open>'hd\<close>, the constructor, \<^verbatim>\<open>importRaw\<close> and
  \<^verbatim>\<open>exportRaw\<close>.
\<close>

record 'hd headers_module =
  Headers_new :: 'hd
  importRaw :: "string list \<Rightarrow> 'hd \<Rightarrow> error + 'hd"
  exportRaw :: "'hd \<Rightarrow> error + string list"

text \<open>
  The process layer: \<^verbatim>\<open>Popen(argv, stdout=PIPE, stderr=PIPE)\<close> followed by reading both
  pipes to their ends either raises or yields what the process wrote to its standard
  output and to its standard error.
\<close>

type_synonym process_layer = "pyval list \<Rightarrow> error + (bytes \<times> bytes)"

subsection \<open>The state\<close>

text \<open>
  \<open>self_attrs\<close> is the attribute dictionary of the \<^verbatim>\<open>BurpUtils\<close> instance;
  \<open>list_objs\<close> and \<open>reqresps\<close> are the stores of the Python list objects and of the
  \<^verbatim>\<open>IHttpRequestResponse\<close> objects, by reference, since the caller shares them with the
  methods; \<open>sys_stdout\<close> is what has been written to \<^verbatim>\<open>sys.stdout\<close>; \<open>spawned\<close> holds
  the argument vector of every process started; \<open>host_calls\<close> the calls made on the
  helper.
\<close>

type_synonym ref = nat

record world =
  self_attrs :: "string \<rightharpoonup> helpers"
  list_objs :: "ref \<Rightarrow> pyval list"
  reqresps :: "ref \<Rightarrow> http_rr"
  sys_stdout :: bytes
  spawned :: "pyval list list"
  host_calls :: "host_call list"

subsection \<open>The Python operations the methods use\<close>

text \<open>\<^verbatim>\<open>xs[i]\<close>: a negative index counts from the end, an index out of range raises.\<close>

definition py_index :: "'a list \<Rightarrow> int \<Rightarrow> error + 'a" where
  "py_index xs i =
     (let j = (if i < 0 then i + int (length xs) else i) in
      if 0 \<le> j \<and> j < int (length xs) then Inr (xs ! nat j) else Inl IndexError)"

text \<open>\<^verbatim>\<open>xs[i:]\<close>: a negative start counts from the end, and the start is clipped.\<close>

definition py_slice_from :: "'a list \<Rightarrow> int \<Rightarrow> 'a list" where
  "py_slice_from xs i =
     (if i < 0 then drop (nat (i + int (length xs))) xs else drop (nat i) xs)"

text \<open>
  \<^verbatim>\<open>xs.insert(index, object)\<close>: the first argument is the position and must be an
  integer, the second is the element; the position is clipped to the list.
\<close>

definition py_list_insert :: "pyval list \<Rightarrow> pyval \<Rightarrow> pyval \<Rightarrow> error + pyval list" where
  "py_list_insert xs idx obj =
     (case idx of
        PyInt i \<Rightarrow>
          (let j = (if i < 0 then i + int (length xs) else i);
               k = (if j < 0 then 0 else if int (length xs) < j then length xs else nat j)
           in Inr (take k xs @ [obj] @ drop k xs))
      | _ \<Rightarrow> Inl TypeError)"

text \<open>An element of a Java byte array, read from Python, is a signed integer.\<close>

definition byte_val :: "byte \<Rightarrow> pyval" where
  "byte_val b = PyInt (sint b)"

subsection \<open>The class\<close>

text \<open>\<^verbatim>\<open>__init__\<close>: \<^verbatim>\<open>self.burpHelper = callbackHelper\<close>.\<close>

definition BurpUtils_init :: "helpers \<Rightarrow> world \<Rightarrow> world" where
  "BurpUtils_init callbackHelper w =
     w\<lparr>self_attrs := (self_attrs w)(''burpHelper'' \<mapsto> callbackHelper)\<rparr>"

text \<open>\<^verbatim>\<open>BurpUtils(callbackHelper)\<close>: a fresh instance, then \<^verbatim>\<open>__init__\<close>.\<close>

definition BurpUtils_new :: "helpers \<Rightarrow> world \<Rightarrow> world" where
  "BurpUtils_new callbackHelper w =
     BurpUtils_init callbackHelper (w\<lparr>self_attrs := Map.empty\<rparr>)"

text \<open>\<^verbatim>\<open>self.burpHelper\<close>: a missing attribute raises.\<close>

definition burpHelper :: "world \<Rightarrow> error + helpers" where
  "burpHelper w =
     (case self_attrs w ''burpHelper'' of
        None \<Rightarrow> Inl AttributeError
      | Some h \<Rightarrow> Inr h)"

definition record_call :: "host_call \<Rightarrow> world \<Rightarrow> world" where
  "record_call c w = w\<lparr>host_calls := host_calls w @ [c]\<rparr>"

definition getInfoFromBytes :: "bool \<Rightarrow> bytes \<Rightarrow> world \<Rightarrow> (error + info) \<times> world" where
  "getInfoFromBytes isRequest rawBytes w =
     (case burpHelper w of
        Inl e \<Rightarrow> (Inl e, w)
      | Inr h \<Rightarrow>
          if isRequest
          then (analyzeRequest h (HBytes rawBytes),
                record_call (CallAnalyzeRequest (HBytes rawBytes)) w)
          else (analyzeResponse h (HBytes rawBytes),
                record_call (CallAnalyzeResponse (HBytes rawBytes)) w))"

definition getInfo :: "bool \<Rightarrow> ref \<Rightarrow> world \<Rightarrow> (error + info) \<times> world" where
  "getInfo isRequest requestResponse w =
     (case burpHelper w of
        Inl e \<Rightarrow> (Inl e, w)
      | Inr h \<Rightarrow>
          if isRequest
          then (analyzeRequest h (HReqResp (reqresps w requestResponse)),
                record_call (CallAnalyzeRequest (HReqResp (reqresps w requestResponse))) w)
          else (analyzeResponse h (HBytes (rr_response (reqresps w requestResponse))),
                record_call
                  (CallAnalyzeResponse (HBytes (rr_response (reqresps w requestResponse)))) w))"

text \<open>The last line is \<^verbatim>\<open>return rawBytes[info.getBodyOffset()]\<close>: an index expression.\<close>

definition getBodyFromBytes :: "bool \<Rightarrow> bytes \<Rightarrow> world \<Rightarrow> (error + pyval) \<times> world" where
  "getBodyFromBytes isRequest rawBytes w =
     (case getInfoFromBytes isRequest rawBytes w of
        (Inl e, w') \<Rightarrow> (Inl e, w')
      | (Inr i, w') \<Rightarrow>
          (case py_index rawBytes (info_bodyOffset i) of
             Inl e \<Rightarrow> (Inl e, w')
           | Inr b \<Rightarrow> (Inr (byte_val b), w')))"

text \<open>Here both branches end in a slice, \<^verbatim>\<open>[info.getBodyOffset():]\<close>.\<close>

definition getBody :: "bool \<Rightarrow> ref \<Rightarrow> world \<Rightarrow> (error + pyval) \<times> world" where
  "getBody isRequest requestResponse w =
     (case getInfo isRequest requestResponse w of
        (Inl e, w') \<Rightarrow> (Inl e, w')
      | (Inr i, w') \<Rightarrow>
          if isRequest
          then (Inr (PyBytes (py_slice_from (rr_request (reqresps w' requestResponse))
                                (info_bodyOffset i))), w')
          else (Inr (PyBytes (py_slice_from (rr_response (reqresps w' requestResponse))
                                (info_bodyOffset i))), w'))"

definition getHeaders :: "'hd headers_module \<Rightarrow> info \<Rightarrow> world \<Rightarrow> (error + 'hd) \<times> world" where
  "getHeaders hm i w = (importRaw hm (info_headers i) (Headers_new hm), w)"

definition setRequestResponse :: "bool \<Rightarrow> bytes \<Rightarrow> ref \<Rightarrow> world \<Rightarrow> (error + pyval) \<times> world" where
  "setRequestResponse isRequest message requestResponse w =
     (if isRequest
      then (Inr PyNone,
            w\<lparr>reqresps := (reqresps w)
                 (requestResponse := (reqresps w requestResponse)\<lparr>rr_request := message\<rparr>)\<rparr>)
      else (Inr PyNone,
            w\<lparr>reqresps := (reqresps w)
                 (requestResponse := (reqresps w requestResponse)\<lparr>rr_response := message\<rparr>)\<rparr>))"

text \<open>
  \<^verbatim>\<open>args.insert(command, 0)\<close> comes first: \<open>command\<close> is in the position of the index
  and \<open>0\<close> in the position of the element. Only when it returns is the list object
  updated, the process started, its standard error written to \<^verbatim>\<open>sys.stdout\<close> and its
  standard output returned.
\<close>

definition runExternal :: "process_layer \<Rightarrow> pyval \<Rightarrow> ref \<Rightarrow> world \<Rightarrow> (error + pyval) \<times> world" where
  "runExternal os command args w =
     (case py_list_insert (list_objs w args) command (PyInt 0) of
        Inl e \<Rightarrow> (Inl e, w)
      | Inr argv \<Rightarrow>
          (let w1 = w\<lparr>list_objs := (list_objs w)(args := argv)\<rparr> in
           case os argv of
             Inl e \<Rightarrow> (Inl e, w1)
           | Inr (output, err) \<Rightarrow>
               (Inr (PyBytes output),
                w1\<lparr>spawned := spawned w1 @ [argv], sys_stdout := sys_stdout w1 @ err\<rparr>)))"

definition createHTTPMessage ::
  "'hd headers_module \<Rightarrow> 'hd \<Rightarrow> bytes \<Rightarrow> world \<Rightarrow> (error + pyval) \<times> world" where
  "createHTTPMessage hm headers bodyBytes w =
     (case burpHelper w of
        Inl e \<Rightarrow> (Inl e, w)
      | Inr h \<Rightarrow>
          (case exportRaw hm headers of
             Inl e \<Rightarrow> (Inl e, w)
           | Inr raw \<Rightarrow>
               (map_sum id PyBytes (buildHttpMessage h raw bodyBytes),
                record_call (CallBuildHttpMessage raw bodyBytes) w)))"

definition base64Decode_wrapper :: "pyval \<Rightarrow> world \<Rightarrow> (error + pyval) \<times> world" where
  "base64Decode_wrapper base64Data w =
     (case burpHelper w of
        Inl e \<Rightarrow> (Inl e, w)
      | Inr h \<Rightarrow> (base64Decode h base64Data, record_call (CallBase64Decode base64Data) w))"

definition base64Encode_wrapper :: "pyval \<Rightarrow> world \<Rightarrow> (error + pyval) \<times> world" where
  "base64Encode_wrapper data w =
     (case burpHelper w of
        Inl e \<Rightarrow> (Inl e, w)
      | Inr h \<Rightarrow> (base64Encode h data, record_call (CallBase64Encode data) w))"

subsection \<open>Concrete inputs\<close>

text \<open>
  A stand-in for the host in the concrete evaluations below: its analysis reports the
  body offset \<open>off\<close> for every message, and its other methods return their input.
\<close>

definition fixed_offset_helper :: "int \<Rightarrow> helpers" where
  "fixed_offset_helper off =
     \<lparr>analyzeRequest = (\<lambda>_. Inr \<lparr>info_bodyOffset = off, info_headers = []\<rparr>),
      analyzeResponse = (\<lambda>_. Inr \<lparr>info_bodyOffset = off, info_headers = []\<rparr>),
      buildHttpMessage = (\<lambda>_ body. Inr body),
      base64Decode = (\<lambda>v. Inr v),
      base64Encode = (\<lambda>v. Inr v)\<rparr>"

text \<open>The 20 bytes of \<^verbatim>\<open>GET / HTTP/1.1\<close>, the empty line, and the body \<^verbatim>\<open>hi\<close>.\<close>

definition sample_request :: bytes where
  "sample_request =
     [0x47, 0x45, 0x54, 0x20, 0x2F, 0x20, 0x48, 0x54, 0x54, 0x50, 0x2F, 0x31, 0x2E, 0x31,
      0x0D, 0x0A, 0x0D, 0x0A, 0x68, 0x69]"

text \<open>The same request with no body: its body offset is its length.\<close>

definition sample_request_no_body :: bytes where
  "sample_request_no_body = take 18 sample_request"

definition sample_rr :: http_rr where
  "sample_rr =
     \<lparr>rr_request = sample_request, rr_response = [], rr_comment = [],
      rr_highlight = [], rr_httpService = ''http://localhost:80''\<rparr>"

text \<open>An initial state: no attribute, empty lists, nothing written, started or called.\<close>

definition world0 :: world where
  "world0 =
     \<lparr>self_attrs = Map.empty, list_objs = (\<lambda>_. []), reqresps = (\<lambda>_. sample_rr),
      sys_stdout = [], spawned = [], host_calls = []\<rparr>"

text \<open>A process layer on which every start succeeds, with fixed contents of both pipes.\<close>

definition echo_os :: process_layer where
  "echo_os argv = Inr ([0x6F, 0x6B], [0x65, 0x72, 0x72])"


text \<open>The initial state with the sample bytes also as the response of every object.\<close>

definition world1 :: world where
  "world1 = world0\<lparr>reqresps := (\<lambda>_. sample_rr\<lparr>rr_response := sample_request\<rparr>)\<rparr>"

section \<open>Properties\<close>

subsection \<open>Auxiliary facts\<close>

lemma burpHelper_new: "burpHelper (BurpUtils_new h w) = Inr h"
  by (simp add: burpHelper_def BurpUtils_new_def BurpUtils_init_def)

lemma host_calls_new: "host_calls (BurpUtils_new h w) = host_calls w"
  by (simp add: BurpUtils_new_def BurpUtils_init_def)

lemma reqresps_new: "reqresps (BurpUtils_new h w) = reqresps w"
  by (simp add: BurpUtils_new_def BurpUtils_init_def)

lemma host_calls_record_call: "host_calls (record_call c w) = host_calls w @ [c]"
  by (simp add: record_call_def)

lemma reqresps_record_call: "reqresps (record_call c w) = reqresps w"
  by (simp add: record_call_def)

lemma self_attrs_record_call: "self_attrs (record_call c w) = self_attrs w"
  by (simp add: record_call_def)

lemma py_slice_from_nonneg: "0 \<le> i \<Longrightarrow> py_slice_from xs i = drop (nat i) xs"
  by (simp add: py_slice_from_def)

text \<open>A string in the position of the index makes \<^verbatim>\<open>list.insert\<close> raise.\<close>

lemma py_list_insert_str: "py_list_insert xs (PyStr c) obj = Inl TypeError"
  by (simp add: py_list_insert_def)

text \<open>With an integer there it inserts: \<^verbatim>\<open>xs.insert(0, x)\<close> puts \<open>x\<close> in front.\<close>

lemma py_list_insert_front: "py_list_insert xs (PyInt 0) obj = Inr (obj # xs)"
  by (simp add: py_list_insert_def)

text \<open>
  So \<^verbatim>\<open>runExternal\<close> with a command string raises at its first statement and leaves the
  state as it found it.
\<close>

lemma runExternal_str: "runExternal os (PyStr command) args w = (Inl TypeError, w)"
  by (simp add: runExternal_def py_list_insert_str)

lemma getInfoFromBytes_new:
  "getInfoFromBytes isRequest rawBytes (BurpUtils_new h w) =
     (if isRequest
      then (analyzeRequest h (HBytes rawBytes),
            record_call (CallAnalyzeRequest (HBytes rawBytes)) (BurpUtils_new h w))
      else (analyzeResponse h (HBytes rawBytes),
            record_call (CallAnalyzeResponse (HBytes rawBytes)) (BurpUtils_new h w)))"
  by (simp add: getInfoFromBytes_def burpHelper_new)

lemma getInfo_new:
  "getInfo isRequest rr (BurpUtils_new h w) =
     (if isRequest
      then (analyzeRequest h (HReqResp (reqresps w rr)),
            record_call (CallAnalyzeRequest (HReqResp (reqresps w rr))) (BurpUtils_new h w))
      else (analyzeResponse h (HBytes (rr_response (reqresps w rr))),
            record_call (CallAnalyzeResponse (HBytes (rr_response (reqresps w rr))))
              (BurpUtils_new h w)))"
  by (simp add: getInfo_def burpHelper_new reqresps_new)

subsection \<open>No method touches the attributes of the instance\<close>

lemma self_attrs_getInfoFromBytes:
  "self_attrs (snd (getInfoFromBytes isRequest rawBytes w)) = self_attrs w"
  by (simp add: getInfoFromBytes_def self_attrs_record_call split: sum.split)

lemma self_attrs_getInfo:
  "self_attrs (snd (getInfo isRequest rr w)) = self_attrs w"
  by (simp add: getInfo_def self_attrs_record_call split: sum.split)

lemma self_attrs_getBodyFromBytes:
  "self_attrs (snd (getBodyFromBytes isRequest rawBytes w)) = self_attrs w"
proof (cases "getInfoFromBytes isRequest rawBytes w")
  case (Pair r w')
  have "self_attrs w' = self_attrs w"
    using self_attrs_getInfoFromBytes [of isRequest rawBytes w] Pair by simp
  then show ?thesis
    by (simp add: getBodyFromBytes_def Pair split: sum.split)
qed

lemma self_attrs_getBody:
  "self_attrs (snd (getBody isRequest rr w)) = self_attrs w"
proof (cases "getInfo isRequest rr w")
  case (Pair r w')
  have "self_attrs w' = self_attrs w"
    using self_attrs_getInfo [of isRequest rr w] Pair by simp
  then show ?thesis
    by (simp add: getBody_def Pair split: sum.split)
qed

lemma self_attrs_getHeaders: "self_attrs (snd (getHeaders hm i w)) = self_attrs w"
  by (simp add: getHeaders_def)

lemma self_attrs_setRequestResponse:
  "self_attrs (snd (setRequestResponse isRequest message rr w)) = self_attrs w"
  by (simp add: setRequestResponse_def)

lemma self_attrs_runExternal:
  "self_attrs (snd (runExternal os command args w)) = self_attrs w"
  by (simp add: runExternal_def Let_def split: sum.split prod.split)

lemma self_attrs_createHTTPMessage:
  "self_attrs (snd (createHTTPMessage hm headers bodyBytes w)) = self_attrs w"
  by (simp add: createHTTPMessage_def self_attrs_record_call split: sum.split)

lemma self_attrs_base64Decode:
  "self_attrs (snd (base64Decode_wrapper base64Data w)) = self_attrs w"
  by (simp add: base64Decode_wrapper_def self_attrs_record_call split: sum.split)

lemma self_attrs_base64Encode:
  "self_attrs (snd (base64Encode_wrapper data w)) = self_attrs w"
  by (simp add: base64Encode_wrapper_def self_attrs_record_call split: sum.split)

subsection \<open>What the host or the process layer raises reaches the caller\<close>

lemma getInfoFromBytes_propagates:
  "(if isRequest then analyzeRequest h (HBytes rawBytes) else analyzeResponse h (HBytes rawBytes))
     = Inl e \<Longrightarrow>
   fst (getInfoFromBytes isRequest rawBytes (BurpUtils_new h w)) = Inl e"
  by (simp add: getInfoFromBytes_new split: if_splits)

lemma getInfo_propagates:
  "(if isRequest then analyzeRequest h (HReqResp (reqresps w rr))
    else analyzeResponse h (HBytes (rr_response (reqresps w rr)))) = Inl e \<Longrightarrow>
   fst (getInfo isRequest rr (BurpUtils_new h w)) = Inl e"
  by (simp add: getInfo_new split: if_splits)

lemma getBodyFromBytes_propagates:
  "fst (getInfoFromBytes isRequest rawBytes w) = Inl e \<Longrightarrow>
   fst (getBodyFromBytes isRequest rawBytes w) = Inl e"
  by (cases "getInfoFromBytes isRequest rawBytes w") (simp add: getBodyFromBytes_def)

lemma getBody_propagates:
  "fst (getInfo isRequest rr w) = Inl e \<Longrightarrow> fst (getBody isRequest rr w) = Inl e"
  by (cases "getInfo isRequest rr w") (simp add: getBody_def)

lemma createHTTPMessage_propagates:
  "exportRaw hm headers = Inr raw \<Longrightarrow> buildHttpMessage h raw bodyBytes = Inl e \<Longrightarrow>
   fst (createHTTPMessage hm headers bodyBytes (BurpUtils_new h w)) = Inl e"
  by (simp add: createHTTPMessage_def burpHelper_new)

lemma base64_propagates:
  "fst (base64Decode_wrapper d (BurpUtils_new h w)) = base64Decode h d
   \<and> fst (base64Encode_wrapper d (BurpUtils_new h w)) = base64Encode h d"
  by (simp add: base64Decode_wrapper_def base64Encode_wrapper_def burpHelper_new)

lemma getHeaders_propagates:
  "fst (getHeaders hm i w) = importRaw hm (info_headers i) (Headers_new hm)"
  by (simp add: getHeaders_def)

lemma createHTTPMessage_exportRaw_propagates:
  "exportRaw hm headers = Inl e \<Longrightarrow>
   fst (createHTTPMessage hm headers bodyBytes (BurpUtils_new h w)) = Inl e"
  by (simp add: createHTTPMessage_def burpHelper_new)

lemma runExternal_os_error_propagates:
  "py_list_insert (list_objs w args) command (PyInt 0) = Inr argv \<Longrightarrow> os argv = Inl e \<Longrightarrow>
   fst (runExternal os command args w) = Inl e"
  by (simp add: runExternal_def)

subsection \<open>The claims\<close>

text \<open>
  C1. The claim: for every command string and every list of argument strings,
  \<^verbatim>\<open>runExternal\<close> starts exactly one process with the argument vector
  \<^verbatim>\<open>[command, args[0], ...]\<close> and returns what the process wrote to its standard output.
  On the code, for every command string, every list and every process layer, the call
  raises \<open>TypeError\<close> and the list of started processes is what it was: no process is
  started and nothing is returned.
\<close>

theorem runExternal_spawns_nothing:
  "fst (runExternal os (PyStr command) args w) = Inl TypeError
   \<and> spawned (snd (runExternal os (PyStr command) args w)) = spawned w"
  by (simp add: runExternal_str)

text \<open>
  C2. The claim: \<^verbatim>\<open>getBodyFromBytes\<close> returns the slice \<^verbatim>\<open>rawBytes[offset:]\<close>, where
  \<open>offset\<close> is the body offset the host reports. On the code, for the 20 bytes of the
  sample request and the body offset 18, the result is the single element at position 18,
  the integer 104, while the slice from 18 is the two bytes of the body; and for the same
  request without a body, whose body offset is its length, the call raises
  \<open>IndexError\<close>.
\<close>

theorem getBodyFromBytes_returns_one_byte:
  "fst (getBodyFromBytes True sample_request (BurpUtils_new (fixed_offset_helper 18) world0)) =
     Inr (PyInt 104)
   \<and> py_slice_from sample_request 18 = [0x68, 0x69]
   \<and> fst (getBodyFromBytes True sample_request_no_body
            (BurpUtils_new (fixed_offset_helper 18) world0)) = Inl IndexError"
proof -
  have len: "length sample_request = 20"
    by (simp add: sample_request_def)
  have idx: "py_index sample_request 18 = Inr (0x68 :: byte)"
    by (simp add: py_index_def sample_request_def)
  have idx0: "py_index sample_request_no_body 18 = (Inl IndexError :: error + byte)"
    by (simp add: py_index_def sample_request_no_body_def len)
  have sl: "py_slice_from sample_request 18 = [0x68, 0x69]"
    by (simp add: py_slice_from_def sample_request_def)
  have bv: "byte_val 0x68 = PyInt 104"
    by (simp add: byte_val_def)
  show ?thesis
    by (simp add: getBodyFromBytes_def getInfoFromBytes_new fixed_offset_helper_def
        idx idx0 sl bv)
qed

text \<open>
  C3. The claim: every operation lets the exceptions of the host and of the process layer
  through unchanged, and raises none of its own before or instead of the host or process
  call when its arguments have the documented types. The first half holds (the lemmas of
  the previous subsection). On the code, \<^verbatim>\<open>runExternal\<close> with the command \<^verbatim>\<open>ls\<close> and
  the argument list \<^verbatim>\<open>['-l']\<close>, on a process layer where the start of
  \<^verbatim>\<open>['ls', '-l']\<close> succeeds, raises \<open>TypeError\<close>, changes nothing, and starts no
  process: an exception of its own, instead of the process call.
\<close>

theorem runExternal_raises_before_spawn:
  "echo_os [PyStr ''ls'', PyStr ''-l''] = Inr ([0x6F, 0x6B], [0x65, 0x72, 0x72])
   \<and> runExternal echo_os (PyStr ''ls'') 0 (world0\<lparr>list_objs := (\<lambda>_. [PyStr ''-l''])\<rparr>) =
       (Inl TypeError, world0\<lparr>list_objs := (\<lambda>_. [PyStr ''-l''])\<rparr>)
   \<and> spawned (world0\<lparr>list_objs := (\<lambda>_. [PyStr ''-l''])\<rparr>) = []"
  by (simp add: runExternal_str echo_os_def world0_def)

text \<open>
  C4. For every byte sequence, \<^verbatim>\<open>getInfoFromBytes\<close> on an instance built from the helper
  \<open>h\<close> returns exactly what \<^verbatim>\<open>analyzeRequest\<close> of \<open>h\<close> returns or raises on these
  bytes when the flag is true, and what \<^verbatim>\<open>analyzeResponse\<close> of \<open>h\<close> returns or raises
  on them when it is false; that call, with the bytes as they came, is the only call made
  on the host.
\<close>

theorem getInfoFromBytes_forwards:
  "fst (getInfoFromBytes True rawBytes (BurpUtils_new h w)) = analyzeRequest h (HBytes rawBytes)
   \<and> fst (getInfoFromBytes False rawBytes (BurpUtils_new h w)) =
       analyzeResponse h (HBytes rawBytes)
   \<and> host_calls (snd (getInfoFromBytes True rawBytes (BurpUtils_new h w))) =
       host_calls w @ [CallAnalyzeRequest (HBytes rawBytes)]
   \<and> host_calls (snd (getInfoFromBytes False rawBytes (BurpUtils_new h w))) =
       host_calls w @ [CallAnalyzeResponse (HBytes rawBytes)]"
  by (simp add: getInfoFromBytes_new host_calls_record_call host_calls_new)

text \<open>
  C5. For every \<^verbatim>\<open>IHttpRequestResponse\<close> object, flag and helper: when the analysis of
  the host (\<^verbatim>\<open>analyzeRequest\<close> on the object for a true flag, \<^verbatim>\<open>analyzeResponse\<close> on
  the bytes of \<^verbatim>\<open>getResponse()\<close> for a false one) returns an info object,
  \<^verbatim>\<open>getBody\<close> returns the slice \<^verbatim>\<open>[offset:]\<close> of the request of the object (flag true)
  or of its response (flag false), where \<open>offset\<close> is the body offset of that info
  object; for an offset that is not negative this is the message without its first
  \<open>offset\<close> bytes.
\<close>

theorem getBody_suffix:
  assumes "(if isRequest then analyzeRequest h (HReqResp (reqresps w rr))
            else analyzeResponse h (HBytes (rr_response (reqresps w rr)))) = Inr i"
  shows "fst (getBody isRequest rr (BurpUtils_new h w)) =
           Inr (PyBytes (py_slice_from
             (if isRequest then rr_request (reqresps w rr) else rr_response (reqresps w rr))
             (info_bodyOffset i)))
         \<and> (0 \<le> info_bodyOffset i \<longrightarrow>
              fst (getBody isRequest rr (BurpUtils_new h w)) =
                Inr (PyBytes (drop (nat (info_bodyOffset i))
                  (if isRequest then rr_request (reqresps w rr)
                   else rr_response (reqresps w rr)))))"
proof -
  let ?W = "BurpUtils_new h w"
  let ?c = "if isRequest then CallAnalyzeRequest (HReqResp (reqresps w rr))
            else CallAnalyzeResponse (HBytes (rr_response (reqresps w rr)))"
  have g: "getInfo isRequest rr ?W = (Inr i, record_call ?c ?W)"
    using assms by (simp add: getInfo_new split: if_splits)
  have body: "fst (getBody isRequest rr ?W) =
           Inr (PyBytes (py_slice_from
             (if isRequest then rr_request (reqresps w rr) else rr_response (reqresps w rr))
             (info_bodyOffset i)))"
    by (simp add: getBody_def g reqresps_record_call reqresps_new)
  show ?thesis
    by (simp add: body py_slice_from_nonneg)
qed

theorem getBody_suffix_witness:
  "analyzeRequest (fixed_offset_helper 18) (HReqResp (reqresps world0 0)) =
     Inr \<lparr>info_bodyOffset = 18, info_headers = []\<rparr>
   \<and> fst (getBody True 0 (BurpUtils_new (fixed_offset_helper 18) world0)) =
       Inr (PyBytes [0x68, 0x69])
   \<and> analyzeResponse (fixed_offset_helper (- 1)) (HBytes (rr_response (reqresps world1 0))) =
     Inr \<lparr>info_bodyOffset = - 1, info_headers = []\<rparr>
   \<and> fst (getBody False 0 (BurpUtils_new (fixed_offset_helper (- 1)) world1)) =
       Inr (PyBytes [0x69])"
proof -
  have a: "(if True then analyzeRequest (fixed_offset_helper 18) (HReqResp (reqresps world0 0))
            else analyzeResponse (fixed_offset_helper 18)
                   (HBytes (rr_response (reqresps world0 0)))) =
           Inr \<lparr>info_bodyOffset = 18, info_headers = []\<rparr>"
    by (simp add: fixed_offset_helper_def)
  have b: "(if False then analyzeRequest (fixed_offset_helper (- 1))
                   (HReqResp (reqresps world1 0))
            else analyzeResponse (fixed_offset_helper (- 1))
                   (HBytes (rr_response (reqresps world1 0)))) =
           Inr \<lparr>info_bodyOffset = - 1, info_headers = []\<rparr>"
    by (simp add: fixed_offset_helper_def)
  have c: "py_slice_from sample_request 18 = [0x68, 0x69]"
    by (simp add: py_slice_from_def sample_request_def)
  have d: "py_slice_from sample_request (- 1) = [0x69]"
    by (simp add: py_slice_from_def sample_request_def)
  have m0: "rr_request (reqresps world0 0) = sample_request"
    by (simp add: world0_def sample_rr_def)
  have m1: "rr_response (reqresps world1 0) = sample_request"
    by (simp add: world1_def world0_def sample_rr_def)
  show ?thesis
    using getBody_suffix [OF a] getBody_suffix [OF b] a b
    by (simp add: c d m0 m1)
qed

text \<open>
  C6. For every message and every \<^verbatim>\<open>IHttpRequestResponse\<close> object,
  \<^verbatim>\<open>setRequestResponse\<close> returns \<^verbatim>\<open>None\<close>; the object then has the message as its
  request when the flag is true and as its response when it is false, its other
  properties are what they were, and nothing else in the state changes.
\<close>

theorem setRequestResponse_frame:
  "setRequestResponse isRequest message rr w =
     (Inr PyNone,
      w\<lparr>reqresps := (reqresps w)
           (rr := (if isRequest then (reqresps w rr)\<lparr>rr_request := message\<rparr>
                   else (reqresps w rr)\<lparr>rr_response := message\<rparr>))\<rparr>)
   \<and> rr_request (reqresps (snd (setRequestResponse isRequest message rr w)) rr) =
       (if isRequest then message else rr_request (reqresps w rr))
   \<and> rr_response (reqresps (snd (setRequestResponse isRequest message rr w)) rr) =
       (if isRequest then rr_response (reqresps w rr) else message)
   \<and> rr_comment (reqresps (snd (setRequestResponse isRequest message rr w)) rr) =
       rr_comment (reqresps w rr)
   \<and> rr_highlight (reqresps (snd (setRequestResponse isRequest message rr w)) rr) =
       rr_highlight (reqresps w rr)
   \<and> rr_httpService (reqresps (snd (setRequestResponse isRequest message rr w)) rr) =
       rr_httpService (reqresps w rr)"
  by (simp add: setRequestResponse_def)

text \<open>
  C7. After construction the attribute dictionary of the instance holds the helper under
  \<^verbatim>\<open>burpHelper\<close> and nothing else, and each of the ten public methods, from any state
  and on any arguments, whether it returns or raises, leaves that dictionary as it was.
\<close>

theorem helper_handle_invariant:
  "self_attrs (BurpUtils_new callbackHelper w0) = [''burpHelper'' \<mapsto> callbackHelper]
   \<and> burpHelper (BurpUtils_new callbackHelper w0) = Inr callbackHelper
   \<and> self_attrs (snd (getInfoFromBytes isRequest rawBytes w)) = self_attrs w
   \<and> self_attrs (snd (getInfo isRequest rr w)) = self_attrs w
   \<and> self_attrs (snd (getBodyFromBytes isRequest rawBytes w)) = self_attrs w
   \<and> self_attrs (snd (getBody isRequest rr w)) = self_attrs w
   \<and> self_attrs (snd (getHeaders hm i w)) = self_attrs w
   \<and> self_attrs (snd (setRequestResponse isRequest message rr w)) = self_attrs w
   \<and> self_attrs (snd (runExternal os command args w)) = self_attrs w
   \<and> self_attrs (snd (createHTTPMessage hm headers bodyBytes w)) = self_attrs w
   \<and> self_attrs (snd (base64Decode_wrapper base64Data w)) = self_attrs w
   \<and> self_attrs (snd (base64Encode_wrapper data w)) = self_attrs w"
proof -
  have "self_attrs (BurpUtils_new callbackHelper w0) = [''burpHelper'' \<mapsto> callbackHelper]"
    by (simp add: BurpUtils_new_def BurpUtils_init_def)
  then show ?thesis
    by (simp only: burpHelper_new self_attrs_getInfoFromBytes self_attrs_getInfo
        self_attrs_getBodyFromBytes self_attrs_getBody self_attrs_getHeaders
        self_attrs_setRequestResponse self_attrs_runExternal self_attrs_createHTTPMessage
        self_attrs_base64Decode self_attrs_base64Encode simp_thms)
qed

text \<open>
  C8. The claim: \<^verbatim>\<open>runExternal\<close> changes the list object of its caller, so that after
  the call the list differs from the one passed in. On the code, for every command string,
  the list object behind \<open>args\<close>, like every other list object, is after the call what
  it was before: the insertion raises before it changes anything.
\<close>

theorem runExternal_args_not_mutated:
  "list_objs (snd (runExternal os (PyStr command) args w)) args = list_objs w args
   \<and> list_objs (snd (runExternal os (PyStr command) args w)) = list_objs w"
  by (simp add: runExternal_str)

text \<open>
  C9. \<^verbatim>\<open>getInfo\<close> is not symmetric in its flag: with the flag true the one call on the
  host is \<^verbatim>\<open>analyzeRequest\<close> on the whole \<^verbatim>\<open>IHttpRequestResponse\<close> object; with the flag
  false it is \<^verbatim>\<open>analyzeResponse\<close> on the bytes that \<^verbatim>\<open>getResponse()\<close> of the object
  returns. In both cases the result of that call is the result of \<^verbatim>\<open>getInfo\<close>.
\<close>

theorem getInfo_asymmetric:
  "fst (getInfo True rr (BurpUtils_new h w)) = analyzeRequest h (HReqResp (reqresps w rr))
   \<and> host_calls (snd (getInfo True rr (BurpUtils_new h w))) =
       host_calls w @ [CallAnalyzeRequest (HReqResp (reqresps w rr))]
   \<and> fst (getInfo False rr (BurpUtils_new h w)) =
       analyzeResponse h (HBytes (rr_response (reqresps w rr)))
   \<and> host_calls (snd (getInfo False rr (BurpUtils_new h w))) =
       host_calls w @ [CallAnalyzeResponse (HBytes (rr_response (reqresps w rr)))]"
  by (simp add: getInfo_new host_calls_record_call host_calls_new)

text \<open>
  C10. The claim: \<^verbatim>\<open>runExternal\<close> writes what the process wrote to its standard error
  to \<^verbatim>\<open>sys.stdout\<close>, and returns only its standard output. On the code, for every command
  string, whatever the process layer would deliver, \<^verbatim>\<open>sys.stdout\<close> after the call holds
  what it held before and the whole state is unchanged: the statements that read and
  write the standard error are never reached.
\<close>

theorem runExternal_writes_nothing:
  "sys_stdout (snd (runExternal os (PyStr command) args w)) = sys_stdout w
   \<and> snd (runExternal os (PyStr command) args w) = w"
  by (simp add: runExternal_str)

end
